theory Spec2Isabelle
  imports Complex_Main "HOL-Library.Word"
begin

unbundle bit_operations_syntax

section \<open>OBD data types (OBDDataTypes.h)\<close>

text \<open>
  Machine types of the header: \<open>size_t\<close> is a 64-bit word, \<open>uint8_t\<close> (and so \<open>PID\<close>) an
  8-bit word, \<open>uint16_t\<close> a 16-bit word, \<open>uint32_t\<close> a 32-bit word. The header stores
  \<open>double\<close> values only as the constants it is given (no arithmetic on them happens in
  this file), so they are carried as \<open>real\<close>.
\<close>

type_synonym size_t = "64 word"
type_synonym PID = "8 word"
type_synonym SignalValue = real

text \<open>\<open>#define OBD_KEEP_ALIVE_SECONDS 2\<close>\<close>

definition OBD_KEEP_ALIVE_SECONDS :: int where
  "OBD_KEEP_ALIVE_SECONDS = 2"

text \<open>\<open>enum class SIDs\<close>, in declaration order (values 0x00 to 0x09).\<close>

datatype SIDs =
    INVALID_SERVICE_MODE
  | CURRENT_STATS
  | STATS_SINCE_FREEZE_FRAME
  | STORED_DTC
  | CLEAR_DTC
  | OXGEN_SENSOR_MODE_NON_CAN
  | OXGEN_SENSOR_MODE
  | PENDING_DTC
  | TESTING
  | VEHICLE_INFO

text \<open>\<open>constexpr PID INVALID_PID = UINT8_MAX\<close>: the largest 8-bit value, all bits set.\<close>

definition INVALID_PID :: PID where
  "INVALID_PID = - 1"

subsection \<open>PIDSignalFormula and its constructors\<close>

record PIDSignalFormula =
  signalID :: "32 word"
  scaling :: real
  offset :: real
  byteOffset :: size_t
  numOfBytes :: size_t
  bitShift :: "8 word"
  bitMaskLen :: "8 word"

text \<open>\<open>PIDSignalFormula() = default\<close>: every field takes its in-class initialiser.\<close>

definition PIDSignalFormula_default :: PIDSignalFormula where
  "PIDSignalFormula_default =
     \<lparr> signalID = 0, scaling = 1, offset = 0, byteOffset = 0, numOfBytes = 1,
       bitShift = 0, bitMaskLen = 8 \<rparr>"

text \<open>\<open>PIDSignalFormula( size_t byteOffsetIn )\<close>\<close>

definition PIDSignalFormula_byteOffset :: "size_t \<Rightarrow> PIDSignalFormula" where
  "PIDSignalFormula_byteOffset byteOffsetIn =
     PIDSignalFormula_default \<lparr> byteOffset := byteOffsetIn \<rparr>"

text \<open>
  \<open>PIDSignalFormula( size_t byteOffsetIn, double scalingIn, double offsetIn, size_t numOfBytesIn )\<close>:
  the member initialiser list sets four fields; the others keep their in-class initialisers.
\<close>

definition PIDSignalFormula_multiByte :: "size_t \<Rightarrow> real \<Rightarrow> real \<Rightarrow> size_t \<Rightarrow> PIDSignalFormula" where
  "PIDSignalFormula_multiByte byteOffsetIn scalingIn offsetIn numOfBytesIn =
     PIDSignalFormula_default
       \<lparr> scaling := scalingIn, offset := offsetIn, byteOffset := byteOffsetIn,
         numOfBytes := numOfBytesIn \<rparr>"

text \<open>\<open>PIDSignalFormula( size_t byteOffsetIn, uint8_t bitShiftIn, uint8_t bitMaskIn )\<close>\<close>

definition PIDSignalFormula_bitmask :: "size_t \<Rightarrow> 8 word \<Rightarrow> 8 word \<Rightarrow> PIDSignalFormula" where
  "PIDSignalFormula_bitmask byteOffsetIn bitShiftIn bitMaskIn =
     PIDSignalFormula_default
       \<lparr> byteOffset := byteOffsetIn, bitShift := bitShiftIn, bitMaskLen := bitMaskIn \<rparr>"

text \<open>
  Modelled from the spec: step 2 of the Signal Decoder (section 4.2); the decoder itself is
  not part of the header. On the 64-bit unsigned accumulator \<open>raw\<close>: if \<open>bitShift\<close> or
  \<open>bitMaskLen\<close> differ from the byte-aligned defaults (0 and 8 times \<open>numOfBytes\<close>), then
  \<open>raw = (raw >> bitShift) & ((1 << bitMaskLen) - 1)\<close>; otherwise \<open>raw\<close> is left alone.
\<close>

definition maskStep :: "PIDSignalFormula \<Rightarrow> 64 word \<Rightarrow> 64 word" where
  "maskStep f raw =
     (if bitShift f \<noteq> 0 \<or> unat (bitMaskLen f) \<noteq> 8 * unat (numOfBytes f)
      then drop_bit (unat (bitShift f)) raw AND (push_bit (unat (bitMaskLen f)) 1 - 1)
      else raw)"

subsection \<open>PIDInfo and the static PID tables\<close>

record PIDInfo =
  pid :: PID
  retLen :: size_t
  formulas :: "PIDSignalFormula list"

text \<open>\<open>static const std::array<PID, 6> supportedPIDRange\<close>\<close>

definition supportedPIDRange :: "PID list" where
  "supportedPIDRange = [0x00, 0x20, 0x40, 0x60, 0x80, 0xA0]"

text \<open>
  \<open>extern const std::array<struct PIDInfo, 171> mode1PIDs\<close>: only the declaration is in the
  header, so the table is a parameter of \<open>getPID\<close> below; its \<open>size()\<close> is fixed by the
  type.
\<close>

definition mode1PIDs_size :: size_t where
  "mode1PIDs_size = 171"

text \<open>\<open>static const std::array<PID, 1> mode2PIDs\<close>\<close>

definition mode2PIDs :: "PID list" where
  "mode2PIDs = [0x02]"

text \<open>\<open>static const std::array<uint16_t, 33> mode5PIDs\<close>\<close>

definition mode5PIDs :: "16 word list" where
  "mode5PIDs =
     [0x100, 0x101, 0x102, 0x103, 0x104, 0x105, 0x106, 0x107, 0x108, 0x109, 0x10A,
      0x10B, 0x10C, 0x10D, 0x10E, 0x10F, 0x110,
      0x201, 0x202, 0x203, 0x204, 0x205, 0x206, 0x207, 0x208, 0x209, 0x20A, 0x20B,
      0x20C, 0x20D, 0x20E, 0x20F, 0x210]"

text \<open>\<open>static const std::array<PID, 12> mode9PIDs\<close>\<close>

definition mode9PIDs :: "PID list" where
  "mode9PIDs = [0x00, 0x01, 0x02, 0x03, 0x04, 0x05, 0x06, 0x07, 0x08, 0x09, 0x0A, 0x0B]"

subsection \<open>getPID\<close>

text \<open>
  \<open>operator[]\<close> of \<open>std::array\<close> does no bounds check: reading at or past the size is
  undefined behaviour, which the model makes a value of its own.
\<close>

datatype fault = OutOfBounds

definition array_at :: "'a list \<Rightarrow> size_t \<Rightarrow> fault + 'a" where
  "array_at xs i = (if unat i < length xs then Inr (xs ! unat i) else Inl OutOfBounds)"

text \<open>\<open>std::array::size()\<close> of a table given in the header, as a \<open>size_t\<close>.\<close>

definition array_size :: "'a list \<Rightarrow> size_t" where
  "array_size xs = of_nat (length xs)"

text \<open>
  \<open>inline PID getPID( SID sid, size_t index )\<close>. \<open>returnPID\<close> starts as \<open>INVALID_PID\<close> and
  is overwritten only inside a guarded branch; \<open>OXGEN_SENSOR_MODE_NON_CAN\<close> and the
  \<open>default\<close> branch leave it alone.
\<close>

definition getPID :: "PIDInfo list \<Rightarrow> SIDs \<Rightarrow> size_t \<Rightarrow> fault + PID" where
  "getPID mode1PIDs sid index =
     (case sid of
        CURRENT_STATS \<Rightarrow>
          if index < mode1PIDs_size then map_sum id pid (array_at mode1PIDs index)
          else Inr INVALID_PID
      | STATS_SINCE_FREEZE_FRAME \<Rightarrow>
          if index < array_size mode2PIDs then array_at mode2PIDs index
          else Inr INVALID_PID
      | OXGEN_SENSOR_MODE_NON_CAN \<Rightarrow> Inr INVALID_PID
      | VEHICLE_INFO \<Rightarrow>
          if index < array_size mode9PIDs then array_at mode9PIDs index
          else Inr INVALID_PID
      | _ \<Rightarrow> Inr INVALID_PID)"


subsection \<open>Diagnostic records\<close>

text \<open>
  \<open>Timestamp\<close> (TimeTypes.h) and \<open>ECUType\<close> (VehicleDataSourceTypes.h) are declared
  outside the header; they are type parameters here.
\<close>

record 't DTCInfo =
  mSID :: SIDs
  receiveTime :: 't
  mDTCCodes :: "string list"

text \<open>\<open>DTCInfo::hasItems\<close>: \<open>return !mDTCCodes.empty();\<close>\<close>

definition DTCInfo_hasItems :: "'t DTCInfo \<Rightarrow> bool" where
  "DTCInfo_hasItems d = (\<not> (mDTCCodes d = []))"

record EmissionInfo =
  mSID :: SIDs
  mPIDsToValues :: "32 word \<rightharpoonup> SignalValue"

record ('e, 't) ECUDiagnosticInfo =
  mEcuType :: 'e
  mVIN :: string
  mPIDInfos :: "EmissionInfo list"
  mDTCInfos :: "'t DTCInfo list"
  mReceptionTime :: 't

text \<open>\<open>ECUDiagnosticInfo::hasItems\<close>: \<open>return ( !mPIDInfos.empty() || !mDTCInfos.empty() );\<close>\<close>

definition ECUDiagnosticInfo_hasItems :: "('e, 't) ECUDiagnosticInfo \<Rightarrow> bool" where
  "ECUDiagnosticInfo_hasItems e = (\<not> (mPIDInfos e = []) \<or> \<not> (mDTCInfos e = []))"

text \<open>
  The specification's reading of the invariant: some EmissionInfo held has a non-empty
  signal-value map, or some DTCInfo held has a non-empty code list.
\<close>

definition someEntryNonEmpty :: "('e, 't) ECUDiagnosticInfo \<Rightarrow> bool" where
  "someEntryNonEmpty e =
     (list_ex (\<lambda>p. mPIDsToValues p \<noteq> Map.empty) (mPIDInfos e) \<or>
      list_ex DTCInfo_hasItems (mDTCInfos e))"

text \<open>\<open>struct OBDRequest\<close> and the static VIN request.\<close>

record OBDRequest =
  mSID :: SIDs
  mPID :: PID

text \<open>\<open>static_cast<SID>( 0x09 )\<close> is the enumerator with value 9, \<open>VEHICLE_INFO\<close>.\<close>

definition vehicleIdentificationNumberRequest :: OBDRequest where
  "vehicleIdentificationNumberRequest = \<lparr> mSID = VEHICLE_INFO, mPID = 0x02 \<rparr>"

subsection \<open>DTC decoding\<close>

datatype decode_error = MalformedResponse

text \<open>
  Modelled from the spec: the DTC Decoder (section 4.3); the header holds the DTC data
  structures but no byte-decoding function. The top two bits of the first byte select the
  letter (00 P, 01 C, 10 B, 11 U), the next two bits the first digit, the low four bits of
  the first byte and the two halves of the second byte three hexadecimal digits. Fewer
  than two bytes is \<open>MalformedResponse\<close>.
\<close>

definition dtcLetter :: "8 word \<Rightarrow> char" where
  "dtcLetter b = ''PCBU'' ! unat (drop_bit 6 b)"

definition hexDigit :: "8 word \<Rightarrow> char" where
  "hexDigit n = ''0123456789ABCDEF'' ! unat (n AND 0xF)"

fun decodeDTC :: "8 word list \<Rightarrow> decode_error + string" where
  "decodeDTC (b1 # b2 # rest) =
     Inr [dtcLetter b1, hexDigit (drop_bit 4 b1 AND 3), hexDigit b1,
          hexDigit (drop_bit 4 b2), hexDigit b2]"
| "decodeDTC bs = Inl MalformedResponse"

text \<open>
  Modelled from the spec: the filter of section 4.3. A payload of 0x0000 denotes "no code"
  and is filtered out (\<open>None\<close>); any other two bytes are emitted as their decoded string.
\<close>

fun emitDTC :: "8 word list \<Rightarrow> decode_error + string option" where
  "emitDTC (b1 # b2 # rest) =
     (if b1 = 0 \<and> b2 = 0 then Inr None
      else map_sum id Some (decodeDTC (b1 # b2 # rest)))"
| "emitDTC bs = Inl MalformedResponse"

section \<open>Formula defaults and the keep-alive interval\<close>

text \<open>
  C7. A default-constructed PIDSignalFormula has scaling 1.0, offset 0.0, byteOffset 0,
  numOfBytes 1, bitShift 0, bitMaskLen 8 and signalID 0.
\<close>

theorem default_formula_fields:
  "scaling PIDSignalFormula_default = 1 \<and>
   offset PIDSignalFormula_default = 0 \<and>
   byteOffset PIDSignalFormula_default = 0 \<and>
   numOfBytes PIDSignalFormula_default = 1 \<and>
   bitShift PIDSignalFormula_default = 0 \<and>
   bitMaskLen PIDSignalFormula_default = 8 \<and>
   signalID PIDSignalFormula_default = 0"
  by (simp add: PIDSignalFormula_default_def)

text \<open>
  C8. The default keep-alive interval, in seconds, is 2.
\<close>

theorem keep_alive_default: "OBD_KEEP_ALIVE_SECONDS = 2"
  by (simp add: OBD_KEEP_ALIVE_SECONDS_def)

section \<open>Helper facts about the tables and getPID\<close>


lemma length_mode9PIDs: "length mode9PIDs = 12"
  by (simp add: mode9PIDs_def)



lemma less_size_mode9PIDs: "i < array_size mode9PIDs \<longleftrightarrow> unat i < length mode9PIDs"
  by (simp add: array_size_def length_mode9PIDs word_less_nat_alt)



lemma getPID_VEHICLE_INFO:
  "getPID mode1PIDs VEHICLE_INFO i =
     Inr (if unat i < length mode9PIDs then mode9PIDs ! unat i else INVALID_PID)"
  by (simp add: getPID_def less_size_mode9PIDs array_at_def)




lemma mode9PIDs_nth: "n < 12 \<Longrightarrow> mode9PIDs ! n = of_nat n"
proof -
  assume n: "n < 12"
  have m: "mode9PIDs = map of_nat [0..<12]"
    by (simp add: mode9PIDs_def upt_rec)
  from n have "map of_nat [0..<12] ! n = (of_nat ([0..<12] ! n) :: 8 word)"
    by (intro nth_map) simp
  also from n have "[0..<12] ! n = n"
    using nth_upt [of 0 n 12] by simp
  finally show ?thesis by (simp only: m)
qed

lemma strictly_ascending_nth:
  "sorted_wrt (<) xs \<Longrightarrow> i < j \<Longrightarrow> j < length xs \<Longrightarrow> xs ! i < xs ! j"
  by (simp add: sorted_wrt_iff_nth_less)

section \<open>The supported-PID range table\<close>

text \<open>
  C1 (as the specification states it, refuted). The claim asks for an entry of
  \<open>supportedPIDRange\<close> at every multiple of 0x20 up to and including 0xE0. The base 0xE0
  is a multiple of 0x20 within that bound and is not in the table.
\<close>

theorem supportedPIDRange_lacks_E0:
  "unat (0xE0 :: PID) mod 0x20 = 0 \<and> unat (0xE0 :: PID) \<le> 0xE0 \<and>
   0xE0 \<notin> set supportedPIDRange"
  by (simp add: supportedPIDRange_def)

text \<open>
  C1 (amended). The supported-PID range table extends to base PID 0xA0: a PID is an entry
  of \<open>supportedPIDRange\<close> exactly when it is a multiple of 0x20 from 0x00 up to and
  including 0xA0.
\<close>

theorem supportedPIDRange_bases:
  "b \<in> set supportedPIDRange \<longleftrightarrow> unat b mod 0x20 = 0 \<and> unat b \<le> 0xA0"
proof
  assume "b \<in> set supportedPIDRange"
  then show "unat b mod 0x20 = 0 \<and> unat b \<le> 0xA0"
    by (auto simp: supportedPIDRange_def)
next
  assume "unat b mod 0x20 = 0 \<and> unat b \<le> 0xA0"
  then have "unat b \<in> {0, 32, 64, 96, 128, 160}"
    by auto
  then have "of_nat (unat b) \<in> (of_nat ` {0, 32, 64, 96, 128, 160} :: PID set)"
    by (rule imageI)
  then show "b \<in> set supportedPIDRange"
    by (simp add: supportedPIDRange_def)
qed

theorem supportedPIDRange_bases_witness:
  "unat (0xA0 :: PID) mod 0x20 = 0 \<and> unat (0xA0 :: PID) \<le> 0xA0 \<and>
   0xA0 \<in> set supportedPIDRange"
  using supportedPIDRange_bases [of "0xA0"] by simp

section \<open>The multi-byte formula constructor\<close>

text \<open>
  C2 (as the specification states it, refuted). The claim asks that a formula built by the
  multi-byte constructor has \<open>bitMaskLen\<close> equal to 8 times \<open>numOfBytes\<close> and that the
  masking step leaves \<open>raw\<close> alone. With \<open>numOfBytes = 2\<close> the constructor leaves
  \<open>bitMaskLen\<close> at 8, not 16, and the masking step of the specification then cuts the
  two-byte value 0x1AF8 down to 0xF8.
\<close>

theorem multiByte_bitMaskLen_counterexample:
  "unat (bitMaskLen (PIDSignalFormula_multiByte 0 (1/4) 0 2)) \<noteq> 8 * unat (2 :: size_t) \<and>
   maskStep (PIDSignalFormula_multiByte 0 (1/4) 0 2) 0x1AF8 \<noteq> 0x1AF8"
  by (simp add: PIDSignalFormula_multiByte_def PIDSignalFormula_default_def maskStep_def)

text \<open>
  C2 (amended). Every formula built by the multi-byte constructor has \<open>bitShift = 0\<close> and
  \<open>bitMaskLen = 8\<close>, the class default, whatever \<open>numOfBytes\<close> is; so \<open>bitMaskLen\<close> equals
  8 times \<open>numOfBytes\<close> exactly when \<open>numOfBytes = 1\<close>, and for \<open>numOfBytes = 1\<close> the masking
  step of the decode algorithm leaves every raw value unchanged.
\<close>

theorem multiByte_ctor_fields:
  "bitShift (PIDSignalFormula_multiByte byteOffsetIn scalingIn offsetIn n) = 0 \<and>
   bitMaskLen (PIDSignalFormula_multiByte byteOffsetIn scalingIn offsetIn n) = 8 \<and>
   (unat (bitMaskLen (PIDSignalFormula_multiByte byteOffsetIn scalingIn offsetIn n)) = 8 * unat n
      \<longleftrightarrow> n = 1) \<and>
   (n = 1 \<longrightarrow> maskStep (PIDSignalFormula_multiByte byteOffsetIn scalingIn offsetIn n) raw = raw)"
  by (simp add: PIDSignalFormula_multiByte_def PIDSignalFormula_default_def maskStep_def
      word_unat_eq_iff)

theorem multiByte_ctor_fields_witness:
  "bitShift (PIDSignalFormula_multiByte 0 1 0 1) = 0 \<and>
   bitMaskLen (PIDSignalFormula_multiByte 0 1 0 1) = 8 \<and>
   unat (bitMaskLen (PIDSignalFormula_multiByte 0 1 0 1)) = 8 * unat (1 :: size_t) \<and>
   maskStep (PIDSignalFormula_multiByte 0 1 0 1) 0x32 = 0x32"
  using multiByte_ctor_fields [of 0 1 0 1 "0x32"] by simp

section \<open>hasItems\<close>

text \<open>
  C3 (as the specification states it, refuted). The claim makes \<open>hasItems()\<close> equivalent
  to holding some non-empty EmissionInfo or DTCInfo. An ECUDiagnosticInfo that holds one
  DTCInfo with an empty code list and no EmissionInfo has \<open>hasItems()\<close> true although
  nothing it holds is non-empty.
\<close>

theorem hasItems_empty_entry_counterexample:
  "ECUDiagnosticInfo_hasItems
     \<lparr> mEcuType = (), mVIN = '''', mPIDInfos = [],
       mDTCInfos = [\<lparr> DTCInfo.mSID = STORED_DTC, receiveTime = (0 :: 64 word), mDTCCodes = [] \<rparr>],
       mReceptionTime = 0 \<rparr> \<and>
   \<not> someEntryNonEmpty
     \<lparr> mEcuType = (), mVIN = '''', mPIDInfos = [],
       mDTCInfos = [\<lparr> DTCInfo.mSID = STORED_DTC, receiveTime = (0 :: 64 word), mDTCCodes = [] \<rparr>],
       mReceptionTime = 0 \<rparr>"
  by (simp add: ECUDiagnosticInfo_hasItems_def someEntryNonEmpty_def DTCInfo_hasItems_def)

text \<open>
  C3 (amended). For every ECUDiagnosticInfo value, \<open>hasItems()\<close> returns true if and only
  if it holds at least one EmissionInfo entry or at least one DTCInfo entry, whether or not
  that entry is itself empty; in particular \<open>hasItems()\<close> is true whenever some
  EmissionInfo held has a non-empty signal-value map or some DTCInfo held has a non-empty
  DTC-code list.
\<close>

theorem hasItems_iff_holds_entry:
  "(ECUDiagnosticInfo_hasItems e \<longleftrightarrow>
      (\<exists>p. p \<in> set (mPIDInfos e)) \<or> (\<exists>d. d \<in> set (mDTCInfos e))) \<and>
   (someEntryNonEmpty e \<longrightarrow> ECUDiagnosticInfo_hasItems e)"
proof
  show "ECUDiagnosticInfo_hasItems e \<longleftrightarrow>
      (\<exists>p. p \<in> set (mPIDInfos e)) \<or> (\<exists>d. d \<in> set (mDTCInfos e))"
    by (cases "mPIDInfos e"; cases "mDTCInfos e") (auto simp: ECUDiagnosticInfo_hasItems_def)
  show "someEntryNonEmpty e \<longrightarrow> ECUDiagnosticInfo_hasItems e"
    by (auto simp: ECUDiagnosticInfo_hasItems_def someEntryNonEmpty_def list_ex_iff)
qed

theorem hasItems_iff_holds_entry_witness:
  "someEntryNonEmpty
     \<lparr> mEcuType = (), mVIN = '''',
       mPIDInfos = [\<lparr> EmissionInfo.mSID = CURRENT_STATS, mPIDsToValues = [0x0C \<mapsto> 1726] \<rparr>],
       mDTCInfos = ([] :: 64 word DTCInfo list), mReceptionTime = 0 \<rparr> \<and>
   ECUDiagnosticInfo_hasItems
     \<lparr> mEcuType = (), mVIN = '''',
       mPIDInfos = [\<lparr> EmissionInfo.mSID = CURRENT_STATS, mPIDsToValues = [0x0C \<mapsto> 1726] \<rparr>],
       mDTCInfos = ([] :: 64 word DTCInfo list), mReceptionTime = 0 \<rparr>"
  using hasItems_iff_holds_entry
    [of "\<lparr> mEcuType = (), mVIN = '''',
       mPIDInfos = [\<lparr> EmissionInfo.mSID = CURRENT_STATS, mPIDsToValues = [0x0C \<mapsto> 1726] \<rparr>],
       mDTCInfos = ([] :: 64 word DTCInfo list), mReceptionTime = 0 \<rparr>"]
  by (simp add: someEntryNonEmpty_def)

section \<open>getPID\<close>




text \<open>
  C9. For every index, \<open>getPID\<close> returns \<open>INVALID_PID\<close> for every service outside
  CURRENT_STATS, STATS_SINCE_FREEZE_FRAME and VEHICLE_INFO: for OXGEN_SENSOR_MODE_NON_CAN,
  and likewise for STORED_DTC, CLEAR_DTC, OXGEN_SENSOR_MODE, PENDING_DTC, TESTING and
  INVALID_SERVICE_MODE.
\<close>

theorem getPID_unsupported_service:
  "sid \<notin> {CURRENT_STATS, STATS_SINCE_FREEZE_FRAME, VEHICLE_INFO} \<Longrightarrow>
   sid \<in> {OXGEN_SENSOR_MODE_NON_CAN, STORED_DTC, CLEAR_DTC, OXGEN_SENSOR_MODE, PENDING_DTC,
          TESTING, INVALID_SERVICE_MODE} \<and>
   getPID mode1PIDs sid index = Inr INVALID_PID"
  by (cases sid) (simp_all add: getPID_def)

theorem getPID_unsupported_service_witness:
  "OXGEN_SENSOR_MODE_NON_CAN \<notin> {CURRENT_STATS, STATS_SINCE_FREEZE_FRAME, VEHICLE_INFO} \<and>
   getPID [] OXGEN_SENSOR_MODE_NON_CAN 0 = Inr INVALID_PID"
  using getPID_unsupported_service [of OXGEN_SENSOR_MODE_NON_CAN "[]" 0] by simp

text \<open>
  C10. The mode 9 table is the identity on its index range: for every index below 12,
  \<open>getPID\<close> on VEHICLE_INFO returns the index itself as a PID; in particular at index 2 it
  returns the PID of the static VIN request, 0x02, whose service is VEHICLE_INFO.
\<close>

theorem getPID_VEHICLE_INFO_identity:
  "(i < 12 \<longrightarrow> getPID mode1PIDs VEHICLE_INFO i = Inr (ucast i)) \<and>
   getPID mode1PIDs (mSID vehicleIdentificationNumberRequest) 2 =
     Inr (mPID vehicleIdentificationNumberRequest) \<and>
   mPID vehicleIdentificationNumberRequest = 0x02"
proof (intro conjI impI)
  assume "i < 12"
  then have "unat i < 12"
    by (simp add: word_less_nat_alt)
  then show "getPID mode1PIDs VEHICLE_INFO i = Inr (ucast i)"
    by (simp add: getPID_VEHICLE_INFO mode9PIDs_nth length_mode9PIDs)
next
  show "getPID mode1PIDs (mSID vehicleIdentificationNumberRequest) 2 =
     Inr (mPID vehicleIdentificationNumberRequest)"
    by (simp add: vehicleIdentificationNumberRequest_def getPID_VEHICLE_INFO mode9PIDs_def)
next
  show "mPID vehicleIdentificationNumberRequest = 0x02"
    by (simp add: vehicleIdentificationNumberRequest_def)
qed

theorem getPID_VEHICLE_INFO_identity_witness:
  "(11 :: size_t) < 12 \<and> getPID [] VEHICLE_INFO 11 = Inr 0x0B"
  using getPID_VEHICLE_INFO_identity [of 11 "[]"] by simp

section \<open>Order of the static tables\<close>

text \<open>
  C6. The static tables \<open>supportedPIDRange\<close>, \<open>mode5PIDs\<close> and \<open>mode9PIDs\<close> are strictly
  ascending: for indices \<open>i < j\<close> within a table, the entry at \<open>i\<close> is strictly less than
  the entry at \<open>j\<close>.
\<close>

theorem static_tables_strictly_ascending:
  "(i < j \<and> j < length supportedPIDRange \<longrightarrow> supportedPIDRange ! i < supportedPIDRange ! j) \<and>
   (i < j \<and> j < length mode5PIDs \<longrightarrow> mode5PIDs ! i < mode5PIDs ! j) \<and>
   (i < j \<and> j < length mode9PIDs \<longrightarrow> mode9PIDs ! i < mode9PIDs ! j)"
proof (intro conjI impI)
  assume "i < j \<and> j < length supportedPIDRange"
  moreover have "sorted_wrt (<) supportedPIDRange"
    by (simp add: supportedPIDRange_def)
  ultimately show "supportedPIDRange ! i < supportedPIDRange ! j"
    by (simp add: strictly_ascending_nth)
next
  assume "i < j \<and> j < length mode5PIDs"
  moreover have "sorted_wrt (<) mode5PIDs"
    by (simp add: mode5PIDs_def)
  ultimately show "mode5PIDs ! i < mode5PIDs ! j"
    by (simp add: strictly_ascending_nth)
next
  assume "i < j \<and> j < length mode9PIDs"
  moreover have "sorted_wrt (<) mode9PIDs"
    by (simp add: mode9PIDs_def)
  ultimately show "mode9PIDs ! i < mode9PIDs ! j"
    by (simp add: strictly_ascending_nth)
qed

theorem static_tables_strictly_ascending_witness:
  "(4 :: nat) < 5 \<and> 5 < length supportedPIDRange \<and> 5 < length mode5PIDs \<and>
   5 < length mode9PIDs \<and>
   supportedPIDRange ! 4 < supportedPIDRange ! 5 \<and>
   mode5PIDs ! 4 < mode5PIDs ! 5 \<and>
   mode9PIDs ! 4 < mode9PIDs ! 5"
  using static_tables_strictly_ascending [of 4 5]
  by (simp add: supportedPIDRange_def mode5PIDs_def mode9PIDs_def)

section \<open>DTC decoding\<close>

text \<open>
  C5. \<open>decodeDTC\<close> maps the two bytes 0x14 0x62 to the string "P1462", which is then
  emitted, and the two-byte payload 0x0000 produces no emitted code.
\<close>

theorem decodeDTC_examples:
  "decodeDTC [0x14, 0x62] = Inr ''P1462'' \<and>
   emitDTC [0x14, 0x62] = Inr (Some ''P1462'') \<and>
   emitDTC [0x00, 0x00] = Inr None"
  by (simp add: dtcLetter_def hexDigit_def)

end
